theory Spec2Isabelle
  imports Complex_Main "HOL-Library.Sublist"
begin

section \<open>Data model\<close>

text \<open>
  The server keeps one process-wide credential slot (\<open>let tokens: any = null\<close>) and
  talks to two external services: the calendar API and a chat-completion API. Both are
  outside the repository, so they are parameters of the model (the record \<open>env\<close>);
  the calendar's remote state is the list of events it stores. Strings are byte strings
  (UTF-8); numbers are the rationals a JSON text can denote.
\<close>

type_synonym credentials = string

text \<open>
  A JavaScript value as it comes out of a parsed JSON body; \<open>JUndefined\<close> is an absent
  field or an omitted argument.
\<close>

datatype json =
  JUndefined
  | JNull
  | JBool bool
  | JNum rat
  | JStr string
  | JArr "json list"
  | JObj "(string \<times> json) list"

record event_time =
  dateTime :: "string option"
  date :: "string option"

text \<open>The event resource of the calendar API, with the fields the code reads or writes.\<close>

record gevent =
  ev_id :: "string option"
  ev_summary :: "string option"
  ev_start :: "event_time option"
  ev_end :: "event_time option"
  htmlLink :: "string option"

record list_request =
  calendarId :: string
  timeMin :: string
  maxResults :: json
  singleEvents :: bool
  orderBy :: string

record event_body =
  b_summary :: "string option"
  b_start :: event_time
  b_end :: event_time

text \<open>In a patch body a field that is \<open>undefined\<close> is \<open>None\<close>: it is not transmitted.\<close>

record patch_body =
  p_summary :: "string option"
  p_start :: "event_time option"
  p_end :: "event_time option"

datatype api_call =
  ListCall list_request
  | InsertCall event_body
  | PatchCall "string option" patch_body
  | DeleteCall string

text \<open>
  The calendar client (\<open>google.calendar(...).events\<close>). A rejected promise is \<open>Inl\<close> of
  its message. \<open>events_list\<close> returns \<open>response.data.items\<close>, which may be undefined.
\<close>

record calendar_service =
  events_list :: "list_request \<Rightarrow> gevent list \<Rightarrow> string + gevent list option"
  events_insert :: "event_body \<Rightarrow> gevent list \<Rightarrow> (string + gevent) \<times> gevent list"
  events_patch :: "string option \<Rightarrow> patch_body \<Rightarrow> gevent list \<Rightarrow> (string + gevent) \<times> gevent list"
  events_delete :: "string \<Rightarrow> gevent list \<Rightarrow> (string + unit) \<times> gevent list"

text \<open>
  The environment of a request:
  \<^item> \<open>calendar\<close>: the calendar client;
  \<^item> \<open>to_iso s\<close>: \<open>new Date(s).toISOString()\<close>, \<open>None\<close> when the date is invalid
    (\<open>toISOString\<close> then throws a RangeError);
  \<^item> \<open>now_iso\<close>: \<open>new Date().toISOString()\<close> at the time of the call;
  \<^item> \<open>completion system user\<close>: \<open>openai.chat.completions.create\<close> with the two
    messages, giving \<open>choices[0]?.message?.content\<close> or a rejection;
  \<^item> \<open>getToken code\<close>: the OAuth code exchange.
\<close>

record env =
  calendar :: calendar_service
  to_iso :: "string \<Rightarrow> string option"
  now_iso :: string
  completion :: "string \<Rightarrow> string \<Rightarrow> string + string option"
  getToken :: "string \<Rightarrow> string + credentials"

text \<open>
  The state: the credential slot \<open>tokens\<close>, the credentials set on \<open>oauth2Client\<close>, the
  remote calendar, and the trace of requests sent to the calendar service (oldest first).
\<close>

record world =
  tokens :: "credentials option"
  client_credentials :: "credentials option"
  remote :: "gevent list"
  calls :: "api_call list"

datatype error =
  Error string
  | RangeError
  | ExternalServiceFailure string

record listed_event =
  le_id :: "string option"
  le_summary :: "string option"
  le_start :: "string option"

record op_result =
  success :: bool
  r_summary :: "string option"
  link :: "string option"

record delete_result =
  d_success :: bool
  message :: string

section \<open>JavaScript helpers\<close>

text \<open>\<open>a || b\<close> on strings that may be undefined: the empty string is falsy.\<close>

definition js_or :: "string option \<Rightarrow> string option \<Rightarrow> string option" where
  "js_or a b = (case a of None \<Rightarrow> b | Some s \<Rightarrow> if s = [] then b else Some s)"

text \<open>
  The falsy values among those of a JSON body, and \<open>a || b\<close> on such values (arrays and
  objects are truthy, and so is every non-empty string, \<open>"0"\<close> included).
\<close>

definition falsy :: "json \<Rightarrow> bool" where
  "falsy v \<longleftrightarrow> v = JUndefined \<or> v = JNull \<or> v = JBool False \<or> v = JNum 0 \<or> v = JStr []"

definition json_or :: "json \<Rightarrow> json \<Rightarrow> json" where
  "json_or a b = (if falsy a then b else a)"

text \<open>\<open>n || 5\<close> on a number that may be undefined: \<open>0\<close> is falsy.\<close>

definition or_default :: "rat option \<Rightarrow> rat \<Rightarrow> rat" where
  "or_default a d = (case a of None \<Rightarrow> d | Some n \<Rightarrow> if n = 0 then d else n)"

text \<open>Truthiness of a string that may be undefined.\<close>

definition truthy :: "string option \<Rightarrow> bool" where
  "truthy a = (case a of None \<Rightarrow> False | Some s \<Rightarrow> s \<noteq> [])"

text \<open>A value inside a template literal: \<open>undefined\<close> prints as the word.\<close>

definition template :: "string option \<Rightarrow> string" where
  "template a = (case a of None \<Rightarrow> ''undefined'' | Some s \<Rightarrow> s)"

text \<open>\<open>new Date(s).toISOString()\<close> where \<open>s\<close> may be undefined (an invalid date).\<close>

definition date_iso :: "env \<Rightarrow> string option \<Rightarrow> string option" where
  "date_iso env s = (case s of None \<Rightarrow> None | Some x \<Rightarrow> to_iso env x)"

text \<open>
  \<open>String.prototype.trim\<close>: the white space and line terminator code points of
  ECMAScript, as their UTF-8 byte sequences.
\<close>

definition js_white_space :: "string list" where
  "js_white_space =
     [[CHR 0x09], [CHR 0x0A], [CHR 0x0B], [CHR 0x0C], [CHR 0x0D], [CHR 0x20],
      [CHR 0xC2, CHR 0xA0], [CHR 0xE1, CHR 0x9A, CHR 0x80]]
     @ map (\<lambda>b. [CHR 0xE2, CHR 0x80, b])
         [CHR 0x80, CHR 0x81, CHR 0x82, CHR 0x83, CHR 0x84, CHR 0x85, CHR 0x86, CHR 0x87,
          CHR 0x88, CHR 0x89, CHR 0x8A, CHR 0xA8, CHR 0xA9, CHR 0xAF]
     @ [[CHR 0xE2, CHR 0x81, CHR 0x9F], [CHR 0xE3, CHR 0x80, CHR 0x80],
        [CHR 0xEF, CHR 0xBB, CHR 0xBF]]"

function strip :: "string list \<Rightarrow> string \<Rightarrow> string" where
  "strip ws s =
     (case find (\<lambda>w. w \<noteq> [] \<and> prefix w s) ws of
        None \<Rightarrow> s
      | Some w \<Rightarrow> strip ws (drop (length w) s))"
  by pat_completeness auto
termination
proof (relation "measure (\<lambda>(ws, s). length s)")
  show "wf (measure (\<lambda>(ws :: string list, s :: string). length s))"
    by simp
next
  fix ws :: "string list" and s w :: string
  assume "find (\<lambda>w. w \<noteq> [] \<and> prefix w s) ws = Some w"
  then have "w \<noteq> []" and "prefix w s"
    by (auto simp: find_Some_iff)
  then have "length s - length w < length s"
    by (cases w) (auto dest: prefix_length_le)
  then show "((ws, drop (length w) s), (ws, s)) \<in> measure (\<lambda>(ws, s). length s)"
    by simp
qed

declare strip.simps [simp del]

definition trim :: "string \<Rightarrow> string" where
  "trim s = rev (strip (map rev js_white_space) (rev (strip js_white_space s)))"

section \<open>Calendar adapter (helper functions of the server)\<close>

definition not_authenticated :: error where
  "not_authenticated = Error ''Not authenticated. Visit /auth''"

text \<open>\<open>ev.start?.dateTime || ev.start?.date\<close>\<close>

definition start_of :: "gevent \<Rightarrow> string option" where
  "start_of ev =
     (case ev_start ev of
        None \<Rightarrow> None
      | Some st \<Rightarrow> js_or (dateTime st) (date st))"

text \<open>
  \<open>async function listEvents(maxResults = 5)\<close>: the default applies when the argument is
  undefined. The parameter is declared a number, but the HTTP handler passes what the
  body holds, so it is any value here.
\<close>

definition listEvents :: "env \<Rightarrow> json \<Rightarrow> world \<Rightarrow> (error + listed_event list) \<times> world" where
  "listEvents env maxResults_arg w =
     (let n = (if maxResults_arg = JUndefined then JNum 5 else maxResults_arg) in
      if tokens w = None then (Inl not_authenticated, w)
      else
        let w1 = w\<lparr>client_credentials := tokens w\<rparr>;
            rq = \<lparr>calendarId = ''primary'', timeMin = now_iso env, maxResults = n,
                  singleEvents = True, orderBy = ''startTime''\<rparr>;
            w2 = w1\<lparr>calls := calls w1 @ [ListCall rq]\<rparr>
        in case events_list (calendar env) rq (remote w2) of
             Inl msg \<Rightarrow> (Inl (ExternalServiceFailure msg), w2)
           | Inr items \<Rightarrow>
               (Inr (map (\<lambda>ev. \<lparr>le_id = ev_id ev, le_summary = ev_summary ev,
                                le_start = start_of ev\<rparr>)
                        (case items of None \<Rightarrow> [] | Some xs \<Rightarrow> xs)), w2))"

definition createEvent ::
  "env \<Rightarrow> string option \<Rightarrow> string option \<Rightarrow> string option \<Rightarrow> world \<Rightarrow> (error + op_result) \<times> world" where
  "createEvent env summary start end_arg w =
     (if tokens w = None then (Inl not_authenticated, w)
      else
        let w1 = w\<lparr>client_credentials := tokens w\<rparr> in
        case date_iso env start of
          None \<Rightarrow> (Inl RangeError, w1)
        | Some s \<Rightarrow>
            (case date_iso env end_arg of
               None \<Rightarrow> (Inl RangeError, w1)
             | Some e \<Rightarrow>
                 (let rb = \<lparr>b_summary = summary,
                            b_start = \<lparr>dateTime = Some s, date = None\<rparr>,
                            b_end = \<lparr>dateTime = Some e, date = None\<rparr>\<rparr>;
                      (r, c) = events_insert (calendar env) rb (remote w1);
                      w2 = w1\<lparr>remote := c, calls := calls w1 @ [InsertCall rb]\<rparr>
                  in case r of
                       Inl msg \<Rightarrow> (Inl (ExternalServiceFailure msg), w2)
                     | Inr ev \<Rightarrow>
                         (Inr \<lparr>success = True, r_summary = ev_summary ev, link = htmlLink ev\<rparr>,
                          w2))))"

text \<open>
  \<open>start ? { dateTime: new Date(start).toISOString() } : undefined\<close>: the outer sum is the
  RangeError of an invalid date, the inner option the field of the patch body.
\<close>

definition optional_time :: "env \<Rightarrow> string option \<Rightarrow> error + event_time option" where
  "optional_time env t =
     (if truthy t then
        (case date_iso env t of
           None \<Rightarrow> Inl RangeError
         | Some s \<Rightarrow> Inr (Some \<lparr>dateTime = Some s, date = None\<rparr>))
      else Inr None)"

definition updateEvent ::
  "env \<Rightarrow> string option \<Rightarrow> string option \<Rightarrow> string option \<Rightarrow> string option \<Rightarrow> world
     \<Rightarrow> (error + op_result) \<times> world" where
  "updateEvent env eventId summary start end_arg w =
     (if tokens w = None then (Inl not_authenticated, w)
      else
        let w1 = w\<lparr>client_credentials := tokens w\<rparr> in
        case optional_time env start of
          Inl err \<Rightarrow> (Inl err, w1)
        | Inr s \<Rightarrow>
            (case optional_time env end_arg of
               Inl err \<Rightarrow> (Inl err, w1)
             | Inr e \<Rightarrow>
                 (let rb = \<lparr>p_summary = summary, p_start = s, p_end = e\<rparr>;
                      (r, c) = events_patch (calendar env) eventId rb (remote w1);
                      w2 = w1\<lparr>remote := c, calls := calls w1 @ [PatchCall eventId rb]\<rparr>
                  in case r of
                       Inl msg \<Rightarrow> (Inl (ExternalServiceFailure msg), w2)
                     | Inr ev \<Rightarrow>
                         (Inr \<lparr>success = True, r_summary = ev_summary ev, link = htmlLink ev\<rparr>,
                          w2))))"

definition deleted :: delete_result where
  "deleted = \<lparr>d_success = True, message = ''Event deleted successfully''\<rparr>"

definition deleteEvent :: "env \<Rightarrow> string \<Rightarrow> world \<Rightarrow> (error + delete_result) \<times> world" where
  "deleteEvent env eventId w =
     (if tokens w = None then (Inl not_authenticated, w)
      else
        let w1 = w\<lparr>client_credentials := tokens w\<rparr>;
            (r, c) = events_delete (calendar env) eventId (remote w1);
            w2 = w1\<lparr>remote := c, calls := calls w1 @ [DeleteCall eventId]\<rparr>
        in case r of
             Inl msg \<Rightarrow> (Inl (ExternalServiceFailure msg), w2)
           | Inr u \<Rightarrow> (Inr deleted, w2))"

section \<open>HTTP API surface\<close>

text \<open>
  A request body is given by its fields; a field that is absent is \<open>None\<close>. The handlers
  are the anonymous functions passed to \<open>app.post\<close>, named after their routes.
\<close>

datatype reply =
  ReplyText string
  | ReplyEvents "listed_event list"

datatype body =
  ErrorBody string
  | EventsBody "listed_event list"
  | ResultBody op_result
  | DeletedBody delete_result
  | ReplyBody reply
  | TextBody string

datatype http_response = Response nat body

text \<open>\<open>app.get("/oauth2callback")\<close>: no response is sent when the exchange is rejected.\<close>

definition oauth2callback :: "env \<Rightarrow> string \<Rightarrow> world \<Rightarrow> http_response option \<times> world" where
  "oauth2callback env code w =
     (case getToken env code of
        Inl msg \<Rightarrow> (None, w)
      | Inr newTokens \<Rightarrow>
          (Some (Response 200
             (TextBody ([CHR 0xE2, CHR 0x9C, CHR 0x85]
                @ '' Authentication successful. You can close this tab.''))),
           w\<lparr>client_credentials := Some newTokens, tokens := Some newTokens\<rparr>))"

definition post_listEvents :: "env \<Rightarrow> json \<Rightarrow> world \<Rightarrow> http_response \<times> world" where
  "post_listEvents env maxResults_field w =
     (case listEvents env (json_or maxResults_field (JNum 5)) w of
        (Inl err, w') \<Rightarrow> (Response 500 (ErrorBody ''Failed to fetch events''), w')
      | (Inr events, w') \<Rightarrow> (Response 200 (EventsBody events), w'))"

definition post_createEvent ::
  "env \<Rightarrow> string option \<Rightarrow> string option \<Rightarrow> string option \<Rightarrow> world \<Rightarrow> http_response \<times> world" where
  "post_createEvent env summary start end_field w =
     (case createEvent env summary start end_field w of
        (Inl err, w') \<Rightarrow> (Response 500 (ErrorBody ''Failed to create event''), w')
      | (Inr event, w') \<Rightarrow> (Response 200 (ResultBody event), w'))"

definition post_updateEvent ::
  "env \<Rightarrow> string option \<Rightarrow> string option \<Rightarrow> string option \<Rightarrow> string option \<Rightarrow> world
     \<Rightarrow> http_response \<times> world" where
  "post_updateEvent env eventId summary start end_field w =
     (case updateEvent env eventId summary start end_field w of
        (Inl err, w') \<Rightarrow> (Response 500 (ErrorBody ''Failed to update event''), w')
      | (Inr event, w') \<Rightarrow> (Response 200 (ResultBody event), w'))"

definition post_deleteEvent :: "env \<Rightarrow> string option \<Rightarrow> world \<Rightarrow> http_response \<times> world" where
  "post_deleteEvent env eventId w =
     (case eventId of
        None \<Rightarrow> (Response 400 (ErrorBody ''Missing eventId''), w)
      | Some eid \<Rightarrow>
          if eid = [] then (Response 400 (ErrorBody ''Missing eventId''), w)
          else
            (case deleteEvent env eid w of
               (Inl err, w') \<Rightarrow> (Response 500 (ErrorBody ''Failed to delete event''), w')
             | (Inr result, w') \<Rightarrow> (Response 200 (DeletedBody result), w')))"

section \<open>Chat intent dispatcher\<close>

definition classify_prompt :: string where
  "classify_prompt =
     ''You are a calendar assistant. Classify the user'' @ [CHR 0x27]
     @ ''s intent into one of: list_events, create_event, update_event, delete_event, or chat.''"

definition chatbot_prompt :: string where
  "chatbot_prompt = ''You are a helpful calendar chatbot.''"

definition event_created :: "op_result \<Rightarrow> string" where
  "event_created event =
     [CHR 0xE2, CHR 0x9C, CHR 0x85] @ '' Event created: '' @ template (link event)"

definition no_response :: string where
  "no_response = [CHR 0xF0, CHR 0x9F, CHR 0xA4, CHR 0x94] @ '' No response''"

text \<open>The fallback of the chat handler, after the chain of comparisons.\<close>

definition fallback_chat :: "env \<Rightarrow> string \<Rightarrow> world \<Rightarrow> http_response \<times> world" where
  "fallback_chat env msg w =
     (case completion env chatbot_prompt msg of
        Inl err \<Rightarrow> (Response 500 (ErrorBody ''Chat failed''), w)
      | Inr reply \<Rightarrow>
          (Response 200
             (ReplyBody (ReplyText
                (case reply of
                   None \<Rightarrow> no_response
                 | Some r \<Rightarrow> if r = [] then no_response else r))), w))"

text \<open>
  The part of the chat handlers that creates the placeholder event; both servers have
  it word for word.
\<close>

definition chat_create :: "env \<Rightarrow> world \<Rightarrow> http_response \<times> world" where
  "chat_create env w =
     (case createEvent env (Some ''New Event'') (Some ''2025-09-25T10:00:00'')
             (Some ''2025-09-25T11:00:00'') w of
        (Inl err, w') \<Rightarrow> (Response 500 (ErrorBody ''Chat failed''), w')
      | (Inr event, w') \<Rightarrow> (Response 200 (ReplyBody (ReplyText (event_created event))), w'))"

text \<open>\<open>app.post("/api/chat")\<close> of the server with the delete endpoint.\<close>

definition post_chat :: "env \<Rightarrow> string \<Rightarrow> world \<Rightarrow> http_response \<times> world" where
  "post_chat env msg w =
     (case completion env classify_prompt msg of
        Inl err \<Rightarrow> (Response 500 (ErrorBody ''Chat failed''), w)
      | Inr content \<Rightarrow>
          (let intent = map_option trim content in
           if intent = Some ''list_events'' then
             (case listEvents env JUndefined w of
                (Inl err, w') \<Rightarrow> (Response 500 (ErrorBody ''Chat failed''), w')
              | (Inr events, w') \<Rightarrow> (Response 200 (ReplyBody (ReplyEvents events)), w'))
           else if intent = Some ''create_event'' then chat_create env w
           else if intent = Some ''update_event'' then
             (Response 200
                (ReplyBody (ReplyText ''Use the [Update] button on an event to modify it.'')), w)
           else if intent = Some ''delete_event'' then
             (Response 200
                (ReplyBody (ReplyText ''Use the [Delete] button on an event to remove it.'')), w)
           else fallback_chat env msg w))"

text \<open>
  \<open>app.post("/api/chat")\<close> of the older server, which has no delete endpoint: another
  classification prompt, the list sent as the text \<open>JSON.stringify(events, null, 2)\<close>
  (the parameter \<open>stringify\<close>), and no branch for \<open>delete_event\<close>.
\<close>

definition classify_prompt_old :: string where
  "classify_prompt_old =
     ''You are a calendar assistant. Classify the user'' @ [CHR 0x27]
     @ ''s intent into one of: list_events, create_event, update_event. ''
     @ ''Chat with the user about events and respond with the appropriate intent.''"

definition post_chat_old ::
  "(listed_event list \<Rightarrow> string) \<Rightarrow> env \<Rightarrow> string \<Rightarrow> world \<Rightarrow> http_response \<times> world" where
  "post_chat_old stringify env msg w =
     (case completion env classify_prompt_old msg of
        Inl err \<Rightarrow> (Response 500 (ErrorBody ''Chat failed''), w)
      | Inr content \<Rightarrow>
          (let intent = map_option trim content in
           if intent = Some ''list_events'' then
             (case listEvents env JUndefined w of
                (Inl err, w') \<Rightarrow> (Response 500 (ErrorBody ''Chat failed''), w')
              | (Inr events, w') \<Rightarrow>
                  (Response 200 (ReplyBody (ReplyText (stringify events))), w'))
           else if intent = Some ''create_event'' then chat_create env w
           else if intent = Some ''update_event'' then
             (Response 200
                (ReplyBody (ReplyText ''Use the [Update] button on an event to modify it.'')), w)
           else fallback_chat env msg w))"

text \<open>The labels the dispatcher compares with.\<close>

definition vocabulary :: "string list" where
  "vocabulary = [''list_events'', ''create_event'', ''update_event'', ''delete_event'']"

section \<open>Tool-invocation server\<close>

record tool_result =
  content_text :: string
  isError :: bool

fun join :: "string \<Rightarrow> string list \<Rightarrow> string" where
  "join sep [] = []"
| "join sep [x] = x"
| "join sep (x # y # ys) = x @ sep @ join sep (y # ys)"

text \<open>The handler given to \<open>mcp.registerTool("listEvents", ...)\<close> in \<open>src/index.ts\<close>.\<close>

definition tool_listEvents :: "env \<Rightarrow> rat option \<Rightarrow> world \<Rightarrow> tool_result \<times> world" where
  "tool_listEvents env input_maxResults w =
     (if tokens w = None then
        (\<lparr>content_text = ''Not authenticated. Visit http://localhost:4153/auth'',
          isError = True\<rparr>, w)
      else
        let w1 = w\<lparr>client_credentials := tokens w\<rparr>;
            rq = \<lparr>calendarId = ''primary'', timeMin = now_iso env,
                  maxResults = JNum (or_default input_maxResults 5),
                  singleEvents = True, orderBy = ''startTime''\<rparr>;
            w2 = w1\<lparr>calls := calls w1 @ [ListCall rq]\<rparr>
        in case events_list (calendar env) rq (remote w2) of
             Inl msg \<Rightarrow> (\<lparr>content_text = ''Error fetching events: '' @ msg, isError = True\<rparr>, w2)
           | Inr items \<Rightarrow>
               (let events = (case items of None \<Rightarrow> [] | Some xs \<Rightarrow> xs);
                    eventText =
                      (if 0 < length events then
                         join [CHR 0x0A]
                           (map (\<lambda>event. template (ev_summary event) @ '' - ''
                                   @ template (start_of event)) events)
                       else ''No upcoming events found.'')
                in (\<lparr>content_text = eventText, isError = False\<rparr>, w2)))"

text \<open>
  The registry of the protocol library, as far as the program uses it: a server holds
  the tools registered on it, by name, and the transport it is connected to. A server
  on which no tool was ever registered has no handler for tool calls and answers them
  with the JSON-RPC error -32601 (method not found). Otherwise a tool call looks the
  name up, checks the argument against the input schema
  (\<open>z.number().optional().default(5)\<close> admits a number and fills in an absent one) and
  runs the handler; an unknown name or a refused argument is the error -32602.
\<close>

datatype rpc_error = MethodNotFound | InvalidParams

datatype schema = NumberOptionalDefault rat

record tool =
  tool_title :: string
  tool_description :: string
  inputSchema :: "(string \<times> schema) list"
  handler :: "env \<Rightarrow> rat option \<Rightarrow> world \<Rightarrow> tool_result \<times> world"

datatype transport = StdioServerTransport

record mcp_server =
  server_name :: string
  server_version :: string
  registered_tools :: "(string \<times> tool) list"
  connected :: "transport option"

definition McpServer :: "string \<Rightarrow> string \<Rightarrow> mcp_server" where
  "McpServer name version =
     \<lparr>server_name = name, server_version = version, registered_tools = [], connected = None\<rparr>"

definition registerTool :: "string \<Rightarrow> tool \<Rightarrow> mcp_server \<Rightarrow> mcp_server" where
  "registerTool name t s = s\<lparr>registered_tools := registered_tools s @ [(name, t)]\<rparr>"

definition connect :: "transport \<Rightarrow> mcp_server \<Rightarrow> mcp_server" where
  "connect tr s = s\<lparr>connected := Some tr\<rparr>"

definition parse_input :: "(string \<times> schema) list \<Rightarrow> json \<Rightarrow> rpc_error + rat option" where
  "parse_input sch given =
     (case map_of sch ''maxResults'' of
        None \<Rightarrow> Inr None
      | Some (NumberOptionalDefault d) \<Rightarrow>
          (case given of
             JUndefined \<Rightarrow> Inr (Some d)
           | JNum n \<Rightarrow> Inr (Some n)
           | _ \<Rightarrow> Inl InvalidParams))"

definition call_tool ::
  "mcp_server \<Rightarrow> string \<Rightarrow> json \<Rightarrow> env \<Rightarrow> world \<Rightarrow> rpc_error + tool_result \<times> world" where
  "call_tool s name given env w =
     (if registered_tools s = [] then Inl MethodNotFound
      else
        (case map_of (registered_tools s) name of
           None \<Rightarrow> Inl InvalidParams
         | Some t \<Rightarrow>
             (case parse_input (inputSchema t) given of
                Inl e \<Rightarrow> Inl e
              | Inr input \<Rightarrow> Inr (handler t env input w))))"

text \<open>The server \<open>mcp\<close> that \<open>src/index.ts\<close> builds and connects.\<close>

definition mcp_index :: mcp_server where
  "mcp_index =
     connect StdioServerTransport
       (registerTool ''listEvents''
          \<lparr>tool_title = ''List Calendar Events'',
            tool_description = ''List upcoming Google Calendar events'',
            inputSchema = [(''maxResults'', NumberOptionalDefault 5)],
            handler = tool_listEvents\<rparr>
          (McpServer ''Google Calendar MCP'' ''1.0.0''))"

text \<open>
  The server \<open>mcp\<close> that the two servers with the chat endpoint build and connect
  ("MCP server still runs for Claude"): \<open>new McpServer\<close>, then \<open>mcp.connect\<close>.
\<close>

definition mcp_chat :: mcp_server where
  "mcp_chat = connect StdioServerTransport (McpServer ''Google Calendar MCP'' ''1.0.0'')"

section \<open>What is expected of the calendar service\<close>


definition stores :: "gevent list \<Rightarrow> string \<Rightarrow> bool" where
  "stores c eid = list_ex (\<lambda>ev. ev_id ev = Some eid) c"


definition stored :: "gevent list \<Rightarrow> string \<Rightarrow> gevent option" where
  "stored c eid = find (\<lambda>ev. ev_id ev = Some eid) c"


section \<open>A stub calendar service\<close>

text \<open>
  An in-memory calendar, a chat-completion stub and two states, on which the
  properties are instantiated. Its time stamps are decimal numerals.
\<close>

definition stub_time :: "string option \<Rightarrow> int" where
  "stub_time t =
     (case t of None \<Rightarrow> 0 | Some s \<Rightarrow> foldl (\<lambda>n c. 10 * n + (of_char c - 48)) 0 s)"

definition stub_when :: "event_time option \<Rightarrow> int" where
  "stub_when t =
     (case t of
        None \<Rightarrow> 0
      | Some x \<Rightarrow>
          (case dateTime x of
             None \<Rightarrow> stub_time (date x)
           | Some s \<Rightarrow> if s = [] then stub_time (date x) else stub_time (Some s)))"

text \<open>
  The page size asked for: a number, or the numeral the client writes into the query
  string for a string of digits.
\<close>

definition stub_cap :: "json \<Rightarrow> nat option" where
  "stub_cap v =
     (case v of
        JNum n \<Rightarrow> if n < 0 then None else Some (nat \<lfloor>n\<rfloor>)
      | JStr s \<Rightarrow>
          if s \<noteq> [] \<and> list_all (\<lambda>c. (48 :: nat) \<le> of_char c \<and> of_char c \<le> (57 :: nat)) s
          then Some (nat (stub_time (Some s))) else None
      | _ \<Rightarrow> None)"

text \<open>
  The list of the stub: \<open>timeMin\<close> is an exclusive lower bound on the end of an event,
  the events are ordered by their start, and at most \<open>maxResults\<close> of them are returned.
\<close>

definition stub_list :: "list_request \<Rightarrow> gevent list \<Rightarrow> string + gevent list option" where
  "stub_list rq c =
     (case stub_cap (maxResults rq) of
        None \<Rightarrow> Inl ''Bad Request''
      | Some k \<Rightarrow>
          Inr (Some (take k
            (sort_key (\<lambda>ev. stub_when (ev_start ev))
               (filter (\<lambda>ev. stub_time (Some (timeMin rq)) < stub_when (ev_end ev)) c)))))"

definition stub_insert :: "event_body \<Rightarrow> gevent list \<Rightarrow> (string + gevent) \<times> gevent list" where
  "stub_insert rb c =
     (let ev = \<lparr>ev_id = Some (''e'' @ replicate (length c) (CHR ''x'')),
                ev_summary = b_summary rb, ev_start = Some (b_start rb),
                ev_end = Some (b_end rb), htmlLink = Some ''https://calendar.example/event''\<rparr>
      in (Inr ev, c @ [ev]))"

definition stub_patch ::
  "string option \<Rightarrow> patch_body \<Rightarrow> gevent list \<Rightarrow> (string + gevent) \<times> gevent list" where
  "stub_patch eventId rb c =
     (case eventId of
        None \<Rightarrow> (Inl ''Missing required parameters: eventId'', c)
      | Some eid \<Rightarrow>
          (case stored c eid of
             None \<Rightarrow> (Inl ''Not Found'', c)
           | Some old \<Rightarrow>
               (let new = old\<lparr>
                      ev_summary := (case p_summary rb of None \<Rightarrow> ev_summary old | Some x \<Rightarrow> Some x),
                      ev_start := (case p_start rb of None \<Rightarrow> ev_start old | Some x \<Rightarrow> Some x),
                      ev_end := (case p_end rb of None \<Rightarrow> ev_end old | Some x \<Rightarrow> Some x)\<rparr>
                in (Inr new, map (\<lambda>ev. if ev_id ev = Some eid then new else ev) c))))"

definition stub_delete :: "string \<Rightarrow> gevent list \<Rightarrow> (string + unit) \<times> gevent list" where
  "stub_delete eid c =
     (if stores c eid then (Inr (), filter (\<lambda>ev. ev_id ev \<noteq> Some eid) c)
      else (Inl ''Not Found'', c))"

definition stub_calendar :: calendar_service where
  "stub_calendar =
     \<lparr>events_list = stub_list, events_insert = stub_insert,
       events_patch = stub_patch, events_delete = stub_delete\<rparr>"

definition stub_env :: "string + string option \<Rightarrow> string + string option \<Rightarrow> env" where
  "stub_env classified chatted =
     \<lparr>calendar = stub_calendar,
       to_iso = (\<lambda>s. if s = ''not a date'' then None else Some (s @ ''.000Z'')),
       now_iso = ''150'',
       completion = (\<lambda>system user. if system = chatbot_prompt then chatted else classified),
       getToken = (\<lambda>code. if code = ''good'' then Inr ''token'' else Inl ''invalid_grant'')\<rparr>"

definition stub_event :: "string \<Rightarrow> string \<Rightarrow> string \<Rightarrow> gevent" where
  "stub_event eid title time =
     \<lparr>ev_id = Some eid, ev_summary = Some title,
       ev_start = Some \<lparr>dateTime = Some time, date = None\<rparr>,
       ev_end = Some \<lparr>dateTime = Some time, date = None\<rparr>,
       htmlLink = Some ''https://calendar.example/event''\<rparr>"

definition stub_store :: "gevent list" where
  "stub_store =
     [stub_event ''a'' ''Standup'' ''300'', stub_event ''b'' ''Review'' ''100'',
      stub_event ''c'' ''Lunch'' ''200'']"

definition signed_out :: world where
  "signed_out = \<lparr>tokens = None, client_credentials = None, remote = stub_store, calls = []\<rparr>"

definition signed_in :: world where
  "signed_in = \<lparr>tokens = Some ''token'', client_credentials = None, remote = stub_store, calls = []\<rparr>"

text \<open>
  The calendar of \<open>signed_in\<close> with a meeting in progress at the time \<open>150\<close> of the stub;
  and a calendar with an all-day event, an event whose \<open>dateTime\<close> is empty and an
  event without start.
\<close>

definition busy :: world where
  "busy =
     \<lparr>tokens = Some ''token'', client_credentials = None,
       remote =
         \<lparr>ev_id = Some ''m'', ev_summary = Some ''Meeting'',
           ev_start = Some \<lparr>dateTime = Some ''100'', date = None\<rparr>,
           ev_end = Some \<lparr>dateTime = Some ''200'', date = None\<rparr>, htmlLink = None\<rparr>
         # stub_store,
       calls = []\<rparr>"

definition odd :: world where
  "odd =
     \<lparr>tokens = Some ''token'', client_credentials = None,
       remote =
         [\<lparr>ev_id = Some ''h'', ev_summary = Some ''Holiday'',
            ev_start = Some \<lparr>dateTime = None, date = Some ''400''\<rparr>,
            ev_end = Some \<lparr>dateTime = None, date = Some ''500''\<rparr>, htmlLink = None\<rparr>,
          \<lparr>ev_id = Some ''k'', ev_summary = None,
            ev_start = Some \<lparr>dateTime = Some [], date = Some ''250''\<rparr>,
            ev_end = Some \<lparr>dateTime = Some ''260'', date = None\<rparr>, htmlLink = None\<rparr>,
          \<lparr>ev_id = None, ev_summary = Some ''Draft'', ev_start = None,
            ev_end = Some \<lparr>dateTime = Some ''600'', date = None\<rparr>, htmlLink = None\<rparr>],
       calls = []\<rparr>"

section \<open>The stub honours its requests\<close>





section \<open>What the adapter sends and returns\<close>











lemma post_listEvents_calls:
  "tokens w \<noteq> None \<Longrightarrow>
     calls (snd (post_listEvents env v w))
       = calls w @ [ListCall \<lparr>calendarId = ''primary'', timeMin = now_iso env,
                               maxResults = json_or v (JNum 5),
                               singleEvents = True, orderBy = ''startTime''\<rparr>]"
  by (auto simp: post_listEvents_def listEvents_def Let_def json_or_def falsy_def
      split: prod.splits sum.splits)

lemma tool_listEvents_calls:
  "tokens w \<noteq> None \<Longrightarrow>
     calls (snd (tool_listEvents env m w))
       = calls w @ [ListCall \<lparr>calendarId = ''primary'', timeMin = now_iso env,
                               maxResults = JNum (or_default m 5),
                               singleEvents = True, orderBy = ''startTime''\<rparr>]"
  by (auto simp: tool_listEvents_def Let_def split: prod.splits sum.splits)

lemma call_tool_mcp_index:
  "call_tool mcp_index ''listEvents'' (case m of None \<Rightarrow> JUndefined | Some n \<Rightarrow> JNum n) env w
     = Inr (tool_listEvents env (Some (case m of None \<Rightarrow> 5 | Some n \<Rightarrow> n)) w)"
  by (simp add: call_tool_def mcp_index_def connect_def registerTool_def McpServer_def
      parse_input_def split: option.splits)

lemma adapter_keeps_tokens:
  "tokens (snd (listEvents env n w)) = tokens w"
  "tokens (snd (createEvent env summary start end_arg w)) = tokens w"
  "tokens (snd (updateEvent env eventId summary start end_arg w)) = tokens w"
  "tokens (snd (deleteEvent env eid w)) = tokens w"
  by (auto simp: listEvents_def createEvent_def updateEvent_def deleteEvent_def Let_def
      split: sum.splits option.splits prod.splits)

lemma oauth2callback_tokens:
  "tokens (snd (oauth2callback env code w))
     = (case getToken env code of Inl msg \<Rightarrow> tokens w | Inr newTokens \<Rightarrow> Some newTokens)"
  by (simp add: oauth2callback_def split: sum.splits)

section \<open>Properties\<close>

text \<open>
  C1. Each of the four adapter operations (\<open>listEvents\<close>, \<open>createEvent\<close>,
  \<open>updateEvent\<close>, \<open>deleteEvent\<close>), called while the credential slot \<open>tokens\<close> is
  absent, fails with the error "Not authenticated. Visit /auth", which sends the caller
  to the OAuth flow, and returns the state as it was: no request is added to the trace
  of calendar calls and the remote calendar is untouched.
\<close>

theorem unauthenticated_adapter_fails:
  "tokens w = None \<Longrightarrow>
     listEvents env n w = (Inl (Error ''Not authenticated. Visit /auth''), w)
     \<and> createEvent env summary start end_arg w
         = (Inl (Error ''Not authenticated. Visit /auth''), w)
     \<and> updateEvent env eventId title new_start new_end w
         = (Inl (Error ''Not authenticated. Visit /auth''), w)
     \<and> deleteEvent env eid w = (Inl (Error ''Not authenticated. Visit /auth''), w)"
  by (simp add: listEvents_def createEvent_def updateEvent_def deleteEvent_def
      not_authenticated_def)

theorem unauthenticated_adapter_fails_witness:
  "tokens signed_out = None
   \<and> listEvents (stub_env (Inr None) (Inr None)) (JNum 3) signed_out
       = (Inl (Error ''Not authenticated. Visit /auth''), signed_out)
   \<and> createEvent (stub_env (Inr None) (Inr None)) (Some ''Talk'') (Some ''400'') (Some ''500'')
         signed_out
       = (Inl (Error ''Not authenticated. Visit /auth''), signed_out)
   \<and> updateEvent (stub_env (Inr None) (Inr None)) (Some ''a'') (Some ''Talk'') None None
         signed_out
       = (Inl (Error ''Not authenticated. Visit /auth''), signed_out)
   \<and> deleteEvent (stub_env (Inr None) (Inr None)) ''a'' signed_out
       = (Inl (Error ''Not authenticated. Visit /auth''), signed_out)
   \<and> calls signed_out = []"
  using unauthenticated_adapter_fails [where w = signed_out
      and env = "stub_env (Inr None) (Inr None)" and n = "JNum 3" and summary = "Some ''Talk''"
      and start = "Some ''400''" and end_arg = "Some ''500''" and eventId = "Some ''a''"
      and title = "Some ''Talk''" and new_start = None and new_end = None and eid = "''a''"]
  by (simp add: signed_out_def)

text \<open>
  C2, as stated, fails: a label outside the vocabulary leads to the fallback, which is a
  second call to the chat-completion service inside the same \<open>try\<close> block; when that
  call is rejected the response is the error 500 "Chat failed".
\<close>

theorem unrecognized_label_can_fail:
  "completion (stub_env (Inr (Some ''smalltalk'')) (Inl ''timeout'')) classify_prompt ''hello''
     = Inr (Some ''smalltalk'')
   \<and> trim ''smalltalk'' \<notin> set vocabulary
   \<and> post_chat (stub_env (Inr (Some ''smalltalk'')) (Inl ''timeout'')) ''hello'' signed_in
       = (Response 500 (ErrorBody ''Chat failed''), signed_in)"
  by code_simp

text \<open>
  C2, amended. When the classification call succeeds: if the trimmed text is
  \<open>list_events\<close>, the handler calls \<open>listEvents\<close> with no argument and replies with its
  result (the older server with the JSON text of the result), or with the error 500
  "Chat failed" when \<open>listEvents\<close> fails; if the text is undefined or is none of the four
  labels, the handler makes no calendar call and replies with what the fallback
  completion returns ("No response" when that is empty or undefined), or with the error
  500 "Chat failed" when the fallback call is rejected. The label alone never
  produces an error.
\<close>

theorem chat_list_and_fallback:
  "(completion env classify_prompt msg = Inr content \<longrightarrow>
      (map_option trim content = Some ''list_events'' \<longrightarrow>
         post_chat env msg w
           = (case listEvents env JUndefined w of
                (Inl err, w') \<Rightarrow> (Response 500 (ErrorBody ''Chat failed''), w')
              | (Inr events, w') \<Rightarrow> (Response 200 (ReplyBody (ReplyEvents events)), w')))
      \<and> ((\<forall>label \<in> set vocabulary. map_option trim content \<noteq> Some label) \<longrightarrow>
         post_chat env msg w
           = (case completion env ''You are a helpful calendar chatbot.'' msg of
                Inl err \<Rightarrow> (Response 500 (ErrorBody ''Chat failed''), w)
              | Inr reply \<Rightarrow>
                  (Response 200 (ReplyBody (ReplyText
                     (case reply of
                        None \<Rightarrow> [CHR 0xF0, CHR 0x9F, CHR 0xA4, CHR 0x94] @ '' No response''
                      | Some r \<Rightarrow>
                          if r = [] then [CHR 0xF0, CHR 0x9F, CHR 0xA4, CHR 0x94] @ '' No response''
                          else r))), w))))
   \<and> (completion env classify_prompt_old msg = Inr content \<longrightarrow>
      (map_option trim content = Some ''list_events'' \<longrightarrow>
         post_chat_old stringify env msg w
           = (case listEvents env JUndefined w of
                (Inl err, w') \<Rightarrow> (Response 500 (ErrorBody ''Chat failed''), w')
              | (Inr events, w') \<Rightarrow>
                  (Response 200 (ReplyBody (ReplyText (stringify events))), w')))
      \<and> ((\<forall>label \<in> set vocabulary. map_option trim content \<noteq> Some label) \<longrightarrow>
         post_chat_old stringify env msg w
           = (case completion env ''You are a helpful calendar chatbot.'' msg of
                Inl err \<Rightarrow> (Response 500 (ErrorBody ''Chat failed''), w)
              | Inr reply \<Rightarrow>
                  (Response 200 (ReplyBody (ReplyText
                     (case reply of
                        None \<Rightarrow> [CHR 0xF0, CHR 0x9F, CHR 0xA4, CHR 0x94] @ '' No response''
                      | Some r \<Rightarrow>
                          if r = [] then [CHR 0xF0, CHR 0x9F, CHR 0xA4, CHR 0x94] @ '' No response''
                          else r))), w))))"
  by (cases content)
    (auto simp: post_chat_def post_chat_old_def Let_def fallback_chat_def vocabulary_def
      chatbot_prompt_def no_response_def split: sum.splits option.splits)

theorem chat_list_and_fallback_witness:
  "completion (stub_env (Inr (Some ''  list_events '')) (Inr None)) classify_prompt
       ''what is on my calendar'' = Inr (Some ''  list_events '')
   \<and> map_option trim (Some ''  list_events '') = Some ''list_events''
   \<and> post_chat (stub_env (Inr (Some ''  list_events '')) (Inr None))
         ''what is on my calendar'' signed_in
       = (Response 200 (ReplyBody (ReplyEvents
            [\<lparr>le_id = Some ''c'', le_summary = Some ''Lunch'', le_start = Some ''200''\<rparr>,
             \<lparr>le_id = Some ''a'', le_summary = Some ''Standup'', le_start = Some ''300''\<rparr>])),
          snd (listEvents (stub_env (Inr (Some ''  list_events '')) (Inr None)) JUndefined signed_in))
   \<and> completion (stub_env (Inr (Some ''smalltalk'')) (Inr (Some ''Hello!''))) classify_prompt
       ''hello'' = Inr (Some ''smalltalk'')
   \<and> list_all (\<lambda>label. map_option trim (Some ''smalltalk'') \<noteq> Some label) vocabulary
   \<and> post_chat (stub_env (Inr (Some ''smalltalk'')) (Inr (Some ''Hello!''))) ''hello'' signed_in
       = (Response 200 (ReplyBody (ReplyText ''Hello!'')), signed_in)
   \<and> completion (stub_env (Inr (Some ''smalltalk'')) (Inr (Some ''Hello!''))) classify_prompt_old
       ''hello'' = Inr (Some ''smalltalk'')
   \<and> post_chat_old (\<lambda>events. ''[]'') (stub_env (Inr (Some ''smalltalk'')) (Inr (Some ''Hello!'')))
         ''hello'' signed_in
       = (Response 200 (ReplyBody (ReplyText ''Hello!'')), signed_in)"
proof -
  let ?list = "stub_env (Inr (Some ''  list_events '')) (Inr None)"
  let ?talk = "stub_env (Inr (Some ''smalltalk'')) (Inr (Some ''Hello!''))"
  have l: "completion ?list classify_prompt ''what is on my calendar''
             = Inr (Some ''  list_events '')"
    and tl: "map_option trim (Some ''  list_events '') = Some ''list_events''"
    and s: "completion ?talk classify_prompt ''hello'' = Inr (Some ''smalltalk'')"
    and so: "completion ?talk classify_prompt_old ''hello'' = Inr (Some ''smalltalk'')"
    and ts: "list_all (\<lambda>label. map_option trim (Some ''smalltalk'') \<noteq> Some label) vocabulary"
    and f: "completion ?talk ''You are a helpful calendar chatbot.'' ''hello'' = Inr (Some ''Hello!'')"
    by code_simp+
  have r: "fst (listEvents ?list JUndefined signed_in)
      = Inr [\<lparr>le_id = Some ''c'', le_summary = Some ''Lunch'', le_start = Some ''200''\<rparr>,
             \<lparr>le_id = Some ''a'', le_summary = Some ''Standup'', le_start = Some ''300''\<rparr>]"
    by code_simp
  from chat_list_and_fallback [where env = ?list and msg = "''what is on my calendar''"
      and content = "Some ''  list_events ''" and w = signed_in] l tl
  have "post_chat ?list ''what is on my calendar'' signed_in
          = (case listEvents ?list JUndefined signed_in of
               (Inl err, w') \<Rightarrow> (Response 500 (ErrorBody ''Chat failed''), w')
             | (Inr events, w') \<Rightarrow> (Response 200 (ReplyBody (ReplyEvents events)), w'))"
    by blast
  with r have listed: "post_chat ?list ''what is on my calendar'' signed_in
       = (Response 200 (ReplyBody (ReplyEvents
            [\<lparr>le_id = Some ''c'', le_summary = Some ''Lunch'', le_start = Some ''200''\<rparr>,
             \<lparr>le_id = Some ''a'', le_summary = Some ''Standup'', le_start = Some ''300''\<rparr>])),
          snd (listEvents ?list JUndefined signed_in))"
    by (auto split: prod.splits)
  from ts have out: "\<forall>label \<in> set vocabulary. map_option trim (Some ''smalltalk'') \<noteq> Some label"
    by (simp add: list_all_iff)
  note talk = chat_list_and_fallback [where env = ?talk and msg = "''hello''"
      and content = "Some ''smalltalk''" and w = signed_in and stringify = "\<lambda>events. ''[]''"]
  from talk s out f
  have new: "post_chat ?talk ''hello'' signed_in
               = (Response 200 (ReplyBody (ReplyText ''Hello!'')), signed_in)"
    by simp
  from talk so out f
  have old: "post_chat_old (\<lambda>events. ''[]'') ?talk ''hello'' signed_in
               = (Response 200 (ReplyBody (ReplyText ''Hello!'')), signed_in)"
    by simp
  from l tl listed s ts new so old show ?thesis
    by (intro conjI)
qed

text \<open>
  C3, as stated, fails: \<open>listEvents\<close> returns what the calendar service answers and
  neither truncates, filters nor sorts it. Against the stub, whose \<open>timeMin\<close> bounds the
  end of an event, a meeting in progress comes back with a start before the call time;
  against a service that answers with its whole store, \<open>listEvents(1)\<close> returns three
  events, not in ascending order, one of them in the past.
\<close>

theorem listEvents_returns_the_answer_as_it_is:
  "now_iso (stub_env (Inr None) (Inr None)) = ''150''
   \<and> fst (listEvents (stub_env (Inr None) (Inr None)) (JNum 5) busy)
       = Inr [\<lparr>le_id = Some ''m'', le_summary = Some ''Meeting'', le_start = Some ''100''\<rparr>,
              \<lparr>le_id = Some ''c'', le_summary = Some ''Lunch'', le_start = Some ''200''\<rparr>,
              \<lparr>le_id = Some ''a'', le_summary = Some ''Standup'', le_start = Some ''300''\<rparr>]
   \<and> stub_time (Some ''100'') < stub_time (Some ''150'')
   \<and> fst (listEvents
            ((stub_env (Inr None) (Inr None))
               \<lparr>calendar := stub_calendar\<lparr>events_list := \<lambda>rq c. Inr (Some c)\<rparr>\<rparr>)
            (JNum 1) signed_in)
       = Inr [\<lparr>le_id = Some ''a'', le_summary = Some ''Standup'', le_start = Some ''300''\<rparr>,
              \<lparr>le_id = Some ''b'', le_summary = Some ''Review'', le_start = Some ''100''\<rparr>,
              \<lparr>le_id = Some ''c'', le_summary = Some ''Lunch'', le_start = Some ''200''\<rparr>]
   \<and> stub_time (Some ''100'') < stub_time (Some ''300'')"
  by code_simp

text \<open>
  C3, amended. A call \<open>listEvents(N)\<close> with a credential present sends exactly one list
  request, for the calendar \<open>primary\<close>, with the call time as \<open>timeMin\<close>,
  \<open>maxResults = N\<close> (5 when the argument is omitted), \<open>singleEvents = true\<close> (recurring
  events expanded to their occurrences) and \<open>orderBy = startTime\<close>; a rejected request is
  an external service failure, and an answer is returned item by item, in its order,
  each item as its id, its title and its start (\<open>dateTime\<close>, or \<open>date\<close> when \<open>dateTime\<close> is
  absent or empty). The cap, the time floor and the order are asked of the calendar
  service, not enforced by the adapter.
\<close>

theorem listEvents_request_and_answer:
  "tokens w \<noteq> None \<Longrightarrow>
     listEvents env arg w
       = (let rq = \<lparr>calendarId = ''primary'', timeMin = now_iso env,
                    maxResults = (if arg = JUndefined then JNum 5 else arg),
                    singleEvents = True, orderBy = ''startTime''\<rparr>;
              w' = w\<lparr>client_credentials := tokens w, calls := calls w @ [ListCall rq]\<rparr>
          in case events_list (calendar env) rq (remote w) of
               Inl msg \<Rightarrow> (Inl (ExternalServiceFailure msg), w')
             | Inr items \<Rightarrow>
                 (Inr (map (\<lambda>ev.
                         \<lparr>le_id = ev_id ev, le_summary = ev_summary ev,
                           le_start =
                             (case ev_start ev of
                                None \<Rightarrow> None
                              | Some st \<Rightarrow>
                                  (case dateTime st of
                                     None \<Rightarrow> date st
                                   | Some s \<Rightarrow> if s = [] then date st else Some s))\<rparr>)
                       (case items of None \<Rightarrow> [] | Some xs \<Rightarrow> xs)), w'))"
proof -
  assume auth: "tokens w \<noteq> None"
  have start: "start_of ev
      = (case ev_start ev of
           None \<Rightarrow> None
         | Some st \<Rightarrow>
             (case dateTime st of
                None \<Rightarrow> date st
              | Some s \<Rightarrow> if s = [] then date st else Some s))" for ev
    by (simp add: start_of_def js_or_def split: option.splits)
  from auth show ?thesis
    by (auto simp: listEvents_def Let_def start split: sum.splits)
qed

theorem listEvents_request_and_answer_witness:
  "tokens odd \<noteq> None
   \<and> listEvents (stub_env (Inr None) (Inr None)) JUndefined odd
       = (Inr [\<lparr>le_id = None, le_summary = Some ''Draft'', le_start = None\<rparr>,
               \<lparr>le_id = Some ''k'', le_summary = None, le_start = Some ''250''\<rparr>,
               \<lparr>le_id = Some ''h'', le_summary = Some ''Holiday'', le_start = Some ''400''\<rparr>],
          odd\<lparr>client_credentials := Some ''token'',
            calls := [ListCall \<lparr>calendarId = ''primary'', timeMin = ''150'', maxResults = JNum 5,
                                 singleEvents = True, orderBy = ''startTime''\<rparr>]\<rparr>)
   \<and> listEvents (stub_env (Inr None) (Inr None)) (JNum (- 1)) odd
       = (Inl (ExternalServiceFailure ''Bad Request''),
          odd\<lparr>client_credentials := Some ''token'',
            calls := [ListCall \<lparr>calendarId = ''primary'', timeMin = ''150'',
                                 maxResults = JNum (- 1),
                                 singleEvents = True, orderBy = ''startTime''\<rparr>]\<rparr>)"
proof -
  let ?env = "stub_env (Inr None) (Inr None)"
  let ?rq = "\<lambda>n. \<lparr>calendarId = ''primary'', timeMin = ''150'', maxResults = JNum n,
                     singleEvents = True, orderBy = ''startTime''\<rparr>"
  have auth: "tokens odd \<noteq> None"
    and tok: "tokens odd = Some ''token''" and empty: "calls odd = []"
    and now: "now_iso ?env = ''150''"
    by (simp_all add: odd_def stub_env_def)
  have answered: "events_list (calendar ?env) (?rq 5) (remote odd)
      = Inr (Some
          [\<lparr>ev_id = None, ev_summary = Some ''Draft'', ev_start = None,
             ev_end = Some \<lparr>dateTime = Some ''600'', date = None\<rparr>, htmlLink = None\<rparr>,
           \<lparr>ev_id = Some ''k'', ev_summary = None,
             ev_start = Some \<lparr>dateTime = Some [], date = Some ''250''\<rparr>,
             ev_end = Some \<lparr>dateTime = Some ''260'', date = None\<rparr>, htmlLink = None\<rparr>,
           \<lparr>ev_id = Some ''h'', ev_summary = Some ''Holiday'',
             ev_start = Some \<lparr>dateTime = None, date = Some ''400''\<rparr>,
             ev_end = Some \<lparr>dateTime = None, date = Some ''500''\<rparr>, htmlLink = None\<rparr>])"
    and refused: "events_list (calendar ?env) (?rq (- 1)) (remote odd) = Inl ''Bad Request''"
    by code_simp+
  from listEvents_request_and_answer [OF auth, of ?env JUndefined] answered
  have "listEvents ?env JUndefined odd
       = (Inr [\<lparr>le_id = None, le_summary = Some ''Draft'', le_start = None\<rparr>,
               \<lparr>le_id = Some ''k'', le_summary = None, le_start = Some ''250''\<rparr>,
               \<lparr>le_id = Some ''h'', le_summary = Some ''Holiday'', le_start = Some ''400''\<rparr>],
          odd\<lparr>client_credentials := Some ''token'', calls := [ListCall (?rq 5)]\<rparr>)"
    by (simp add: now tok empty)
  moreover from listEvents_request_and_answer [OF auth, of ?env "JNum (- 1)"] refused
  have "listEvents ?env (JNum (- 1)) odd
       = (Inl (ExternalServiceFailure ''Bad Request''),
          odd\<lparr>client_credentials := Some ''token'', calls := [ListCall (?rq (- 1))]\<rparr>)"
    by (simp add: now tok empty)
  ultimately show ?thesis
    using auth by (intro conjI)
qed

text \<open>
  C4. In each handler of the HTTP API (\<open>/api/listEvents\<close>, \<open>/api/createEvent\<close>,
  \<open>/api/updateEvent\<close>, \<open>/api/deleteEvent\<close>, \<open>/api/chat\<close>), a failure of the adapter
  operation it calls, whatever the error, gives the status 500 with the fixed text of
  that handler and nothing else. A delete request whose \<open>eventId\<close> is missing (or
  empty) is answered 400 "Missing eventId" with the state untouched, so before any
  adapter call, also when no credential is present.
\<close>

theorem adapter_failure_is_500:
  "(fst (listEvents env
           (if m = JUndefined \<or> m = JNull \<or> m = JBool False \<or> m = JNum 0 \<or> m = JStr []
              then JNum 5 else m) w) = Inl err_list
      \<longrightarrow> fst (post_listEvents env m w) = Response 500 (ErrorBody ''Failed to fetch events''))
   \<and> (fst (createEvent env summary start end_arg w) = Inl err_create
      \<longrightarrow> fst (post_createEvent env summary start end_arg w)
            = Response 500 (ErrorBody ''Failed to create event''))
   \<and> (fst (updateEvent env eventId title new_start new_end w) = Inl err_update
      \<longrightarrow> fst (post_updateEvent env eventId title new_start new_end w)
            = Response 500 (ErrorBody ''Failed to update event''))
   \<and> (eid \<noteq> [] \<and> fst (deleteEvent env eid w) = Inl err_delete
      \<longrightarrow> fst (post_deleteEvent env (Some eid) w) = Response 500 (ErrorBody ''Failed to delete event''))
   \<and> (completion env classify_prompt msg = Inr (Some c) \<and> trim c = ''list_events''
        \<and> fst (listEvents env JUndefined w) = Inl err_chat_list
      \<longrightarrow> fst (post_chat env msg w) = Response 500 (ErrorBody ''Chat failed''))
   \<and> (completion env classify_prompt msg = Inr (Some c) \<and> trim c = ''create_event''
        \<and> fst (createEvent env (Some ''New Event'') (Some ''2025-09-25T10:00:00'')
                 (Some ''2025-09-25T11:00:00'') w) = Inl err_chat_create
      \<longrightarrow> fst (post_chat env msg w) = Response 500 (ErrorBody ''Chat failed''))
   \<and> post_deleteEvent env None w = (Response 400 (ErrorBody ''Missing eventId''), w)
   \<and> post_deleteEvent env (Some []) w = (Response 400 (ErrorBody ''Missing eventId''), w)"
proof -
  have l: "fst (post_listEvents env m w) = Response 500 (ErrorBody ''Failed to fetch events'')"
    if "fst (listEvents env
           (if m = JUndefined \<or> m = JNull \<or> m = JBool False \<or> m = JNum 0 \<or> m = JStr []
              then JNum 5 else m) w) = Inl err_list"
    using that by (auto simp: post_listEvents_def json_or_def falsy_def split: prod.splits)
  have c: "fst (post_createEvent env summary start end_arg w)
            = Response 500 (ErrorBody ''Failed to create event'')"
    if "fst (createEvent env summary start end_arg w) = Inl err_create"
    using that by (auto simp: post_createEvent_def split: prod.splits)
  have u: "fst (post_updateEvent env eventId title new_start new_end w)
            = Response 500 (ErrorBody ''Failed to update event'')"
    if "fst (updateEvent env eventId title new_start new_end w) = Inl err_update"
    using that by (auto simp: post_updateEvent_def split: prod.splits)
  have d: "fst (post_deleteEvent env (Some eid) w) = Response 500 (ErrorBody ''Failed to delete event'')"
    if "eid \<noteq> []" "fst (deleteEvent env eid w) = Inl err_delete"
    using that by (auto simp: post_deleteEvent_def split: prod.splits)
  have cl: "fst (post_chat env msg w) = Response 500 (ErrorBody ''Chat failed'')"
    if "completion env classify_prompt msg = Inr (Some c)" "trim c = ''list_events''"
      "fst (listEvents env JUndefined w) = Inl err_chat_list"
    using that by (auto simp: post_chat_def split: prod.splits)
  have cc: "fst (post_chat env msg w) = Response 500 (ErrorBody ''Chat failed'')"
    if "completion env classify_prompt msg = Inr (Some c)" "trim c = ''create_event''"
      "fst (createEvent env (Some ''New Event'') (Some ''2025-09-25T10:00:00'')
                 (Some ''2025-09-25T11:00:00'') w) = Inl err_chat_create"
    using that by (auto simp: post_chat_def chat_create_def split: prod.splits)
  have b: "post_deleteEvent env None w = (Response 400 (ErrorBody ''Missing eventId''), w)"
    "post_deleteEvent env (Some []) w = (Response 400 (ErrorBody ''Missing eventId''), w)"
    by (simp_all add: post_deleteEvent_def)
  from l c u d cl cc b show ?thesis by blast
qed

theorem adapter_failure_is_500_witness:
  "fst (post_listEvents (stub_env (Inr (Some ''list_events'')) (Inr None)) (JNum (- 1)) signed_in)
     = Response 500 (ErrorBody ''Failed to fetch events'')
   \<and> fst (post_createEvent (stub_env (Inr (Some ''list_events'')) (Inr None))
            (Some ''Talk'') (Some ''not a date'') (Some ''500'') signed_in)
     = Response 500 (ErrorBody ''Failed to create event'')
   \<and> fst (post_updateEvent (stub_env (Inr (Some ''list_events'')) (Inr None))
            (Some ''z'') (Some ''Talk'') None None signed_in)
     = Response 500 (ErrorBody ''Failed to update event'')
   \<and> fst (post_deleteEvent (stub_env (Inr (Some ''list_events'')) (Inr None)) (Some ''z'') signed_in)
     = Response 500 (ErrorBody ''Failed to delete event'')
   \<and> fst (post_chat (stub_env (Inr (Some ''list_events'')) (Inr None)) ''what is on today'' signed_out)
     = Response 500 (ErrorBody ''Chat failed'')
   \<and> fst (post_chat (stub_env (Inr (Some ''create_event'')) (Inr None)) ''add a meeting'' signed_out)
     = Response 500 (ErrorBody ''Chat failed'')
   \<and> post_deleteEvent (stub_env (Inr (Some ''list_events'')) (Inr None)) None signed_out
     = (Response 400 (ErrorBody ''Missing eventId''), signed_out)"
proof -
  let ?list = "stub_env (Inr (Some ''list_events'')) (Inr None)"
  let ?create = "stub_env (Inr (Some ''create_event'')) (Inr None)"
  have a: "fst (listEvents ?list
               (if JNum (- 1) = JUndefined \<or> JNum (- 1) = JNull \<or> JNum (- 1) = JBool False
                   \<or> JNum (- 1) = JNum 0 \<or> JNum (- 1) = JStr []
                then JNum 5 else JNum (- 1)) signed_in)
             = Inl (ExternalServiceFailure ''Bad Request'')"
    "fst (createEvent ?list (Some ''Talk'') (Some ''not a date'') (Some ''500'') signed_in)
       = Inl RangeError"
    "fst (updateEvent ?list (Some ''z'') (Some ''Talk'') None None signed_in)
       = Inl (ExternalServiceFailure ''Not Found'')"
    "''z'' \<noteq> [] \<and> fst (deleteEvent ?list ''z'' signed_in) = Inl (ExternalServiceFailure ''Not Found'')"
    by code_simp+
  have b: "completion ?list classify_prompt ''what is on today'' = Inr (Some ''list_events'')
           \<and> trim ''list_events'' = ''list_events''
           \<and> fst (listEvents ?list JUndefined signed_out) = Inl (Error ''Not authenticated. Visit /auth'')"
    by code_simp
  have c: "completion ?create classify_prompt ''add a meeting'' = Inr (Some ''create_event'')
           \<and> trim ''create_event'' = ''create_event''
           \<and> fst (createEvent ?create (Some ''New Event'') (Some ''2025-09-25T10:00:00'')
                 (Some ''2025-09-25T11:00:00'') signed_out)
               = Inl (Error ''Not authenticated. Visit /auth'')"
    by code_simp
  note direct = adapter_failure_is_500 [where env = ?list and w = signed_in and m = "JNum (- 1)"
      and summary = "Some ''Talk''" and start = "Some ''not a date''" and end_arg = "Some ''500''"
      and eventId = "Some ''z''" and title = "Some ''Talk''" and new_start = None and new_end = None
      and eid = "''z''" and err_list = "ExternalServiceFailure ''Bad Request''" and err_create = RangeError
      and err_update = "ExternalServiceFailure ''Not Found''"
      and err_delete = "ExternalServiceFailure ''Not Found''"]
  note listing = adapter_failure_is_500 [where env = ?list and w = signed_out
      and msg = "''what is on today''" and c = "''list_events''"
      and err_chat_list = "Error ''Not authenticated. Visit /auth''"]
  note creating = adapter_failure_is_500 [where env = ?create and w = signed_out
      and msg = "''add a meeting''" and c = "''create_event''"
      and err_chat_create = "Error ''Not authenticated. Visit /auth''"]
  from direct a have "fst (post_listEvents ?list (JNum (- 1)) signed_in)
       = Response 500 (ErrorBody ''Failed to fetch events'')"
    and "fst (post_createEvent ?list (Some ''Talk'') (Some ''not a date'') (Some ''500'') signed_in)
       = Response 500 (ErrorBody ''Failed to create event'')"
    and "fst (post_updateEvent ?list (Some ''z'') (Some ''Talk'') None None signed_in)
       = Response 500 (ErrorBody ''Failed to update event'')"
    and "fst (post_deleteEvent ?list (Some ''z'') signed_in)
       = Response 500 (ErrorBody ''Failed to delete event'')"
    by blast+
  moreover from listing b have "fst (post_chat ?list ''what is on today'' signed_out)
       = Response 500 (ErrorBody ''Chat failed'')"
    by blast
  moreover from creating c have "fst (post_chat ?create ''add a meeting'' signed_out)
       = Response 500 (ErrorBody ''Chat failed'')"
    by blast
  moreover from listing have "post_deleteEvent ?list None signed_out
       = (Response 400 (ErrorBody ''Missing eventId''), signed_out)"
    by blast
  ultimately show ?thesis
    by (intro conjI)
qed




lemma createEvent_inserts:
  assumes "tokens w \<noteq> None" and "to_iso env a = Some s" and "to_iso env b = Some e"
  shows "createEvent env title (Some a) (Some b) w
     = (let rb = \<lparr>b_summary = title, b_start = \<lparr>dateTime = Some s, date = None\<rparr>,
                   b_end = \<lparr>dateTime = Some e, date = None\<rparr>\<rparr>;
            answer = events_insert (calendar env) rb (remote w);
            w' = w\<lparr>client_credentials := tokens w, remote := snd answer,
                    calls := calls w @ [InsertCall rb]\<rparr>
        in (case fst answer of
              Inl msg \<Rightarrow> Inl (ExternalServiceFailure msg)
            | Inr ev \<Rightarrow> Inr \<lparr>success = True, r_summary = ev_summary ev, link = htmlLink ev\<rparr>,
            w'))"
  using assms
  by (auto simp: createEvent_def date_iso_def Let_def split: prod.splits sum.splits)

text \<open>
  C6. When the classifier answers \<open>create_event\<close>, the chat handler of both servers
  is \<open>createEvent("New Event", "2025-09-25T10:00:00", "2025-09-25T11:00:00")\<close> followed
  by the reply "Event created: " and the link (error 500 "Chat failed" when the
  creation fails): nothing of the user's message enters the request. With a credential
  present and the two dates valid, the handler sends one insert request, which carries
  exactly that title and those two times, the calendar becomes what the service makes
  of that request, and the reply carries the link of the event the service answers
  with.
\<close>

theorem chat_create_fixed_arguments:
  "(completion env classify_prompt msg = Inr (Some c) \<and> trim c = ''create_event'' \<longrightarrow>
      post_chat env msg w
        = (case createEvent env (Some ''New Event'') (Some ''2025-09-25T10:00:00'')
                  (Some ''2025-09-25T11:00:00'') w of
             (Inl err, w') \<Rightarrow> (Response 500 (ErrorBody ''Chat failed''), w')
           | (Inr event, w') \<Rightarrow>
               (Response 200 (ReplyBody (ReplyText
                  ([CHR 0xE2, CHR 0x9C, CHR 0x85] @ '' Event created: ''
                   @ (case link event of None \<Rightarrow> ''undefined'' | Some l \<Rightarrow> l)))), w')))
   \<and> (completion env classify_prompt_old msg = Inr (Some c) \<and> trim c = ''create_event'' \<longrightarrow>
      post_chat_old stringify env msg w
        = (case createEvent env (Some ''New Event'') (Some ''2025-09-25T10:00:00'')
                  (Some ''2025-09-25T11:00:00'') w of
             (Inl err, w') \<Rightarrow> (Response 500 (ErrorBody ''Chat failed''), w')
           | (Inr event, w') \<Rightarrow>
               (Response 200 (ReplyBody (ReplyText
                  ([CHR 0xE2, CHR 0x9C, CHR 0x85] @ '' Event created: ''
                   @ (case link event of None \<Rightarrow> ''undefined'' | Some l \<Rightarrow> l)))), w')))
   \<and> (completion env classify_prompt msg = Inr (Some c) \<and> trim c = ''create_event''
        \<and> tokens w \<noteq> None \<and> to_iso env ''2025-09-25T10:00:00'' = Some s
        \<and> to_iso env ''2025-09-25T11:00:00'' = Some e \<longrightarrow>
      calls (snd (post_chat env msg w))
          = calls w @ [InsertCall \<lparr>b_summary = Some ''New Event'',
                 b_start = \<lparr>dateTime = Some s, date = None\<rparr>,
                 b_end = \<lparr>dateTime = Some e, date = None\<rparr>\<rparr>]
      \<and> remote (snd (post_chat env msg w))
          = snd (events_insert (calendar env)
               \<lparr>b_summary = Some ''New Event'',
                 b_start = \<lparr>dateTime = Some s, date = None\<rparr>,
                 b_end = \<lparr>dateTime = Some e, date = None\<rparr>\<rparr> (remote w))
      \<and> fst (post_chat env msg w)
          = (case fst (events_insert (calendar env)
               \<lparr>b_summary = Some ''New Event'',
                 b_start = \<lparr>dateTime = Some s, date = None\<rparr>,
                 b_end = \<lparr>dateTime = Some e, date = None\<rparr>\<rparr> (remote w)) of
               Inl err \<Rightarrow> Response 500 (ErrorBody ''Chat failed'')
             | Inr ev \<Rightarrow>
                 Response 200 (ReplyBody (ReplyText
                   ([CHR 0xE2, CHR 0x9C, CHR 0x85] @ '' Event created: ''
                    @ (case htmlLink ev of None \<Rightarrow> ''undefined'' | Some l \<Rightarrow> l))))))
   \<and> (completion env classify_prompt_old msg = Inr (Some c) \<and> trim c = ''create_event''
        \<and> tokens w \<noteq> None \<and> to_iso env ''2025-09-25T10:00:00'' = Some s
        \<and> to_iso env ''2025-09-25T11:00:00'' = Some e \<longrightarrow>
      calls (snd (post_chat_old stringify env msg w))
          = calls w @ [InsertCall \<lparr>b_summary = Some ''New Event'',
                 b_start = \<lparr>dateTime = Some s, date = None\<rparr>,
                 b_end = \<lparr>dateTime = Some e, date = None\<rparr>\<rparr>]
      \<and> remote (snd (post_chat_old stringify env msg w))
          = snd (events_insert (calendar env)
               \<lparr>b_summary = Some ''New Event'',
                 b_start = \<lparr>dateTime = Some s, date = None\<rparr>,
                 b_end = \<lparr>dateTime = Some e, date = None\<rparr>\<rparr> (remote w))
      \<and> fst (post_chat_old stringify env msg w)
          = (case fst (events_insert (calendar env)
               \<lparr>b_summary = Some ''New Event'',
                 b_start = \<lparr>dateTime = Some s, date = None\<rparr>,
                 b_end = \<lparr>dateTime = Some e, date = None\<rparr>\<rparr> (remote w)) of
               Inl err \<Rightarrow> Response 500 (ErrorBody ''Chat failed'')
             | Inr ev \<Rightarrow>
                 Response 200 (ReplyBody (ReplyText
                   ([CHR 0xE2, CHR 0x9C, CHR 0x85] @ '' Event created: ''
                    @ (case htmlLink ev of None \<Rightarrow> ''undefined'' | Some l \<Rightarrow> l))))))"
proof -
  let ?created = "createEvent env (Some ''New Event'') (Some ''2025-09-25T10:00:00'')
                    (Some ''2025-09-25T11:00:00'') w"
  let ?rb = "\<lparr>b_summary = Some ''New Event'',
                 b_start = \<lparr>dateTime = Some s, date = None\<rparr>,
                 b_end = \<lparr>dateTime = Some e, date = None\<rparr>\<rparr>"
  let ?answer = "events_insert (calendar env) ?rb (remote w)"
  have new: "post_chat env msg w
        = (case ?created of
             (Inl err, w') \<Rightarrow> (Response 500 (ErrorBody ''Chat failed''), w')
           | (Inr event, w') \<Rightarrow>
               (Response 200 (ReplyBody (ReplyText
                  ([CHR 0xE2, CHR 0x9C, CHR 0x85] @ '' Event created: ''
                   @ (case link event of None \<Rightarrow> ''undefined'' | Some l \<Rightarrow> l)))), w'))"
    if "completion env classify_prompt msg = Inr (Some c) \<and> trim c = ''create_event''"
    using that
    by (auto simp: post_chat_def chat_create_def event_created_def template_def
        split: prod.splits sum.splits)
  have old: "post_chat_old stringify env msg w
        = (case ?created of
             (Inl err, w') \<Rightarrow> (Response 500 (ErrorBody ''Chat failed''), w')
           | (Inr event, w') \<Rightarrow>
               (Response 200 (ReplyBody (ReplyText
                  ([CHR 0xE2, CHR 0x9C, CHR 0x85] @ '' Event created: ''
                   @ (case link event of None \<Rightarrow> ''undefined'' | Some l \<Rightarrow> l)))), w'))"
    if "completion env classify_prompt_old msg = Inr (Some c) \<and> trim c = ''create_event''"
    using that
    by (auto simp: post_chat_old_def chat_create_def event_created_def template_def
        split: prod.splits sum.splits)
  have effect: "calls (snd h) = calls w @ [InsertCall ?rb]
      \<and> remote (snd h) = snd ?answer
      \<and> fst h
          = (case fst ?answer of
               Inl err \<Rightarrow> Response 500 (ErrorBody ''Chat failed'')
             | Inr ev \<Rightarrow>
                 Response 200 (ReplyBody (ReplyText
                   ([CHR 0xE2, CHR 0x9C, CHR 0x85] @ '' Event created: ''
                    @ (case htmlLink ev of None \<Rightarrow> ''undefined'' | Some l \<Rightarrow> l)))))"
    if h: "h = (case ?created of
             (Inl err, w') \<Rightarrow> (Response 500 (ErrorBody ''Chat failed''), w')
           | (Inr event, w') \<Rightarrow>
               (Response 200 (ReplyBody (ReplyText
                  ([CHR 0xE2, CHR 0x9C, CHR 0x85] @ '' Event created: ''
                   @ (case link event of None \<Rightarrow> ''undefined'' | Some l \<Rightarrow> l)))), w'))"
      and valid: "tokens w \<noteq> None \<and> to_iso env ''2025-09-25T10:00:00'' = Some s
        \<and> to_iso env ''2025-09-25T11:00:00'' = Some e"
    for h
  proof -
    from valid have "tokens w \<noteq> None" and "to_iso env ''2025-09-25T10:00:00'' = Some s"
      and "to_iso env ''2025-09-25T11:00:00'' = Some e"
      by simp_all
    from createEvent_inserts [OF this, of "Some ''New Event''"]
    show ?thesis
      unfolding h by (cases "fst ?answer") (simp_all add: Let_def)
  qed
  from new old effect show ?thesis
    by simp
qed

theorem chat_create_fixed_arguments_witness:
  "completion (stub_env (Inr (Some ''create_event'')) (Inr None)) classify_prompt
       ''dentist on Friday at 3pm'' = Inr (Some ''create_event'')
   \<and> trim ''create_event'' = ''create_event''
   \<and> tokens signed_in \<noteq> None
   \<and> to_iso (stub_env (Inr (Some ''create_event'')) (Inr None)) ''2025-09-25T10:00:00''
       = Some ''2025-09-25T10:00:00.000Z''
   \<and> to_iso (stub_env (Inr (Some ''create_event'')) (Inr None)) ''2025-09-25T11:00:00''
       = Some ''2025-09-25T11:00:00.000Z''
   \<and> fst (post_chat (stub_env (Inr (Some ''create_event'')) (Inr None))
            ''dentist on Friday at 3pm'' signed_in)
       = Response 200 (ReplyBody (ReplyText
           ([CHR 0xE2, CHR 0x9C, CHR 0x85] @ '' Event created: https://calendar.example/event'')))
   \<and> calls (snd (post_chat (stub_env (Inr (Some ''create_event'')) (Inr None))
            ''dentist on Friday at 3pm'' signed_in))
       = [InsertCall \<lparr>b_summary = Some ''New Event'',
            b_start = \<lparr>dateTime = Some ''2025-09-25T10:00:00.000Z'', date = None\<rparr>,
            b_end = \<lparr>dateTime = Some ''2025-09-25T11:00:00.000Z'', date = None\<rparr>\<rparr>]
   \<and> remote (snd (post_chat (stub_env (Inr (Some ''create_event'')) (Inr None))
            ''dentist on Friday at 3pm'' signed_in))
       = stub_store
         @ [\<lparr>ev_id = Some ''exxx'', ev_summary = Some ''New Event'',
              ev_start = Some \<lparr>dateTime = Some ''2025-09-25T10:00:00.000Z'', date = None\<rparr>,
              ev_end = Some \<lparr>dateTime = Some ''2025-09-25T11:00:00.000Z'', date = None\<rparr>,
              htmlLink = Some ''https://calendar.example/event''\<rparr>]"
proof -
  let ?env = "stub_env (Inr (Some ''create_event'')) (Inr None)"
  let ?rb = "\<lparr>b_summary = Some ''New Event'',
            b_start = \<lparr>dateTime = Some ''2025-09-25T10:00:00.000Z'', date = None\<rparr>,
            b_end = \<lparr>dateTime = Some ''2025-09-25T11:00:00.000Z'', date = None\<rparr>\<rparr>"
  let ?new = "\<lparr>ev_id = Some ''exxx'', ev_summary = Some ''New Event'',
              ev_start = Some \<lparr>dateTime = Some ''2025-09-25T10:00:00.000Z'', date = None\<rparr>,
              ev_end = Some \<lparr>dateTime = Some ''2025-09-25T11:00:00.000Z'', date = None\<rparr>,
              htmlLink = Some ''https://calendar.example/event''\<rparr>"
  have c: "completion ?env classify_prompt ''dentist on Friday at 3pm'' = Inr (Some ''create_event'')"
    and t: "trim ''create_event'' = ''create_event''"
    and auth: "tokens signed_in \<noteq> None"
    and from_iso: "to_iso ?env ''2025-09-25T10:00:00'' = Some ''2025-09-25T10:00:00.000Z''"
    and to_iso: "to_iso ?env ''2025-09-25T11:00:00'' = Some ''2025-09-25T11:00:00.000Z''"
    by code_simp+
  have empty: "calls signed_in = []"
    by (simp add: signed_in_def)
  have answer: "events_insert (calendar ?env) ?rb (remote signed_in)
                  = (Inr ?new, stub_store @ [?new])"
    by code_simp
  note fixed = chat_create_fixed_arguments [where env = ?env and w = signed_in
      and msg = "''dentist on Friday at 3pm''" and c = "''create_event''"
      and s = "''2025-09-25T10:00:00.000Z''" and e = "''2025-09-25T11:00:00.000Z''"]
  from fixed c t auth from_iso to_iso
  have "calls (snd (post_chat ?env ''dentist on Friday at 3pm'' signed_in))
          = calls signed_in @ [InsertCall ?rb]"
    and "remote (snd (post_chat ?env ''dentist on Friday at 3pm'' signed_in))
          = snd (events_insert (calendar ?env) ?rb (remote signed_in))"
    and "fst (post_chat ?env ''dentist on Friday at 3pm'' signed_in)
          = (case fst (events_insert (calendar ?env) ?rb (remote signed_in)) of
               Inl err \<Rightarrow> Response 500 (ErrorBody ''Chat failed'')
             | Inr ev \<Rightarrow>
                 Response 200 (ReplyBody (ReplyText
                   ([CHR 0xE2, CHR 0x9C, CHR 0x85] @ '' Event created: ''
                    @ (case htmlLink ev of None \<Rightarrow> ''undefined'' | Some l \<Rightarrow> l)))))"
    by blast+
  then have "fst (post_chat ?env ''dentist on Friday at 3pm'' signed_in)
       = Response 200 (ReplyBody (ReplyText
           ([CHR 0xE2, CHR 0x9C, CHR 0x85] @ '' Event created: https://calendar.example/event'')))"
    and "calls (snd (post_chat ?env ''dentist on Friday at 3pm'' signed_in)) = [InsertCall ?rb]"
    and "remote (snd (post_chat ?env ''dentist on Friday at 3pm'' signed_in)) = stub_store @ [?new]"
    by (simp_all add: answer empty)
  with c t auth from_iso to_iso show ?thesis
    by (intro conjI)
qed

text \<open>
  C7. When the classifier answers \<open>update_event\<close> or \<open>delete_event\<close>, the chat
  handler replies with the fixed instruction to use the [Update] or [Delete] button and
  returns the state as it was: no calendar request is made and the remote calendar is
  unchanged.
\<close>

theorem chat_update_delete_static:
  "completion env classify_prompt msg = Inr (Some c) \<Longrightarrow>
     (trim c = ''update_event'' \<longrightarrow>
        post_chat env msg w
          = (Response 200 (ReplyBody (ReplyText ''Use the [Update] button on an event to modify it.'')),
             w))
     \<and> (trim c = ''delete_event'' \<longrightarrow>
        post_chat env msg w
          = (Response 200 (ReplyBody (ReplyText ''Use the [Delete] button on an event to remove it.'')),
             w))"
  by (simp add: post_chat_def)

theorem chat_update_delete_static_witness:
  "completion (stub_env (Inr (Some ('' update_event'' @ [CHR 0x0A]))) (Inr None)) classify_prompt
       ''move my standup'' = Inr (Some ('' update_event'' @ [CHR 0x0A]))
   \<and> trim ('' update_event'' @ [CHR 0x0A]) = ''update_event''
   \<and> post_chat (stub_env (Inr (Some ('' update_event'' @ [CHR 0x0A]))) (Inr None))
         ''move my standup'' signed_in
       = (Response 200 (ReplyBody (ReplyText ''Use the [Update] button on an event to modify it.'')),
          signed_in)
   \<and> completion (stub_env (Inr (Some ''delete_event'')) (Inr None)) classify_prompt
       ''cancel lunch'' = Inr (Some ''delete_event'')
   \<and> trim ''delete_event'' = ''delete_event''
   \<and> post_chat (stub_env (Inr (Some ''delete_event'')) (Inr None)) ''cancel lunch'' signed_in
       = (Response 200 (ReplyBody (ReplyText ''Use the [Delete] button on an event to remove it.'')),
          signed_in)"
proof -
  let ?update = "stub_env (Inr (Some ('' update_event'' @ [CHR 0x0A]))) (Inr None)"
  let ?delete = "stub_env (Inr (Some ''delete_event'')) (Inr None)"
  have u: "completion ?update classify_prompt ''move my standup''
             = Inr (Some ('' update_event'' @ [CHR 0x0A]))"
    and tu: "trim ('' update_event'' @ [CHR 0x0A]) = ''update_event''"
    and d: "completion ?delete classify_prompt ''cancel lunch'' = Inr (Some ''delete_event'')"
    and td: "trim ''delete_event'' = ''delete_event''"
    by code_simp+
  from chat_update_delete_static [OF u, of signed_in] tu
  have "post_chat ?update ''move my standup'' signed_in
       = (Response 200 (ReplyBody (ReplyText ''Use the [Update] button on an event to modify it.'')),
          signed_in)"
    by blast
  moreover from chat_update_delete_static [OF d, of signed_in] td
  have "post_chat ?delete ''cancel lunch'' signed_in
       = (Response 200 (ReplyBody (ReplyText ''Use the [Delete] button on an event to remove it.'')),
          signed_in)"
    by blast
  ultimately show ?thesis
    using u tu d td by (intro conjI)
qed



text \<open>
  C9. The server \<open>mcp\<close> of \<open>src/index.ts\<close> registers exactly one tool, \<open>listEvents\<close>,
  whose input is the optional number \<open>maxResults\<close>, and is connected over stdio. The
  server \<open>mcp\<close> of the two servers with the chat endpoint is connected over stdio with
  no tool registered: a call of \<open>listEvents\<close> on it is answered "method not found".
\<close>

theorem chat_server_registers_no_tool:
  "registered_tools mcp_chat = []
   \<and> connected mcp_chat = Some StdioServerTransport
   \<and> call_tool mcp_chat ''listEvents'' (JNum 3) env w = Inl MethodNotFound
   \<and> map fst (registered_tools mcp_index) = [''listEvents'']
   \<and> map (\<lambda>t. inputSchema (snd t)) (registered_tools mcp_index)
       = [[(''maxResults'', NumberOptionalDefault 5)]]
   \<and> connected mcp_index = Some StdioServerTransport"
  by (simp add: mcp_chat_def mcp_index_def connect_def registerTool_def McpServer_def
      call_tool_def)

text \<open>
  C10, as stated, fails in its conclusion. A request for one event reaches the calendar
  with \<open>maxResults = 1\<close>, below the default 5; and the HTTP endpoint applies \<open>|| 5\<close> to
  whatever the body holds, so the string \<open>"0"\<close>, which is truthy, reaches the calendar
  client as it is (the client writes it into the query as \<open>maxResults=0\<close>, and the stub
  answers with no event).
\<close>

theorem maxResults_below_default:
  "calls (snd (post_listEvents (stub_env (Inr None) (Inr None)) (JNum 1) signed_in))
     = [ListCall \<lparr>calendarId = ''primary'', timeMin = ''150'', maxResults = JNum 1,
                  singleEvents = True, orderBy = ''startTime''\<rparr>]
   \<and> (1 :: rat) < 5
   \<and> fst (post_listEvents (stub_env (Inr None) (Inr None)) (JNum 1) signed_in)
     = Response 200 (EventsBody
         [\<lparr>le_id = Some ''c'', le_summary = Some ''Lunch'', le_start = Some ''200''\<rparr>])
   \<and> calls (snd (post_listEvents (stub_env (Inr None) (Inr None)) (JStr ''0'') signed_in))
     = [ListCall \<lparr>calendarId = ''primary'', timeMin = ''150'', maxResults = JStr ''0'',
                  singleEvents = True, orderBy = ''startTime''\<rparr>]
   \<and> fst (post_listEvents (stub_env (Inr None) (Inr None)) (JStr ''0'') signed_in)
     = Response 200 (EventsBody [])"
  by code_simp

text \<open>
  C10, amended. At the HTTP endpoint \<open>/api/listEvents\<close> a \<open>maxResults\<close> that is falsy
  (absent, \<open>null\<close>, \<open>false\<close>, 0 or the empty string) reaches the calendar as 5, and every
  other value reaches it unchanged, whatever its type. At the tool \<open>listEvents\<close> the
  schema admits a number or nothing: an absent \<open>maxResults\<close> or 0 reaches the calendar
  as 5, every other number unchanged, and any other value is refused before the handler
  runs. So the number 0 is never sent, but the cap can be below the default.
\<close>

theorem falsy_maxResults_defaults:
  "tokens w \<noteq> None \<Longrightarrow>
     calls (snd (post_listEvents env v w))
       = calls w @ [ListCall \<lparr>calendarId = ''primary'', timeMin = now_iso env,
            maxResults =
              (if v = JUndefined \<or> v = JNull \<or> v = JBool False \<or> v = JNum 0 \<or> v = JStr []
               then JNum 5 else v),
            singleEvents = True, orderBy = ''startTime''\<rparr>]
     \<and> (if v = JUndefined \<or> v = JNull \<or> v = JBool False \<or> v = JNum 0 \<or> v = JStr []
         then JNum 5 else v) \<noteq> JNum 0
     \<and> (\<exists>res w'.
           call_tool mcp_index ''listEvents'' (case m of None \<Rightarrow> JUndefined | Some n \<Rightarrow> JNum n)
               env w = Inr (res, w')
           \<and> calls w' = calls w @ [ListCall \<lparr>calendarId = ''primary'', timeMin = now_iso env,
                maxResults = JNum (case m of None \<Rightarrow> 5 | Some n \<Rightarrow> if n = 0 then 5 else n),
                singleEvents = True, orderBy = ''startTime''\<rparr>])
     \<and> (case m of None \<Rightarrow> 5 | Some n \<Rightarrow> if n = 0 then 5 else n) \<noteq> (0 :: rat)
     \<and> (v \<noteq> JUndefined \<and> (\<forall>n. v \<noteq> JNum n) \<longrightarrow>
          call_tool mcp_index ''listEvents'' v env w = Inl InvalidParams)"
proof -
  assume auth: "tokens w \<noteq> None"
  let ?given = "case m of None \<Rightarrow> JUndefined | Some n \<Rightarrow> JNum n"
  let ?cap = "case m of None \<Rightarrow> 5 | Some n \<Rightarrow> if n = 0 then (5 :: rat) else n"
  let ?tool = "tool_listEvents env (Some (case m of None \<Rightarrow> 5 | Some n \<Rightarrow> n)) w"
  have same: "or_default (Some (case m of None \<Rightarrow> 5 | Some n \<Rightarrow> n)) 5 = ?cap"
    by (simp add: or_default_def split: option.splits)
  have http: "calls (snd (post_listEvents env v w))
       = calls w @ [ListCall \<lparr>calendarId = ''primary'', timeMin = now_iso env,
            maxResults =
              (if v = JUndefined \<or> v = JNull \<or> v = JBool False \<or> v = JNum 0 \<or> v = JStr []
               then JNum 5 else v),
            singleEvents = True, orderBy = ''startTime''\<rparr>]"
    using post_listEvents_calls [OF auth, of env v] by (simp add: json_or_def falsy_def)
  have nonzero: "(if v = JUndefined \<or> v = JNull \<or> v = JBool False \<or> v = JNum 0 \<or> v = JStr []
         then JNum 5 else v) \<noteq> JNum 0"
    by simp
  have "call_tool mcp_index ''listEvents'' ?given env w = Inr (fst ?tool, snd ?tool)"
    by (simp add: call_tool_mcp_index)
  moreover have "calls (snd ?tool)
      = calls w @ [ListCall \<lparr>calendarId = ''primary'', timeMin = now_iso env,
                               maxResults = JNum ?cap, singleEvents = True,
                               orderBy = ''startTime''\<rparr>]"
    using tool_listEvents_calls [OF auth, of env "Some (case m of None \<Rightarrow> 5 | Some n \<Rightarrow> n)"]
    by (simp only: same)
  ultimately have tool: "\<exists>res w'.
           call_tool mcp_index ''listEvents'' ?given env w = Inr (res, w')
           \<and> calls w' = calls w @ [ListCall \<lparr>calendarId = ''primary'', timeMin = now_iso env,
                maxResults = JNum ?cap, singleEvents = True, orderBy = ''startTime''\<rparr>]"
    by (intro exI [of _ "fst ?tool"] exI [of _ "snd ?tool"] conjI)
  have cap: "?cap \<noteq> 0"
    by (simp split: option.splits)
  have refused: "v \<noteq> JUndefined \<and> (\<forall>n. v \<noteq> JNum n) \<longrightarrow>
          call_tool mcp_index ''listEvents'' v env w = Inl InvalidParams"
    by (cases v)
      (simp_all add: call_tool_def mcp_index_def connect_def registerTool_def McpServer_def
        parse_input_def)
  show ?thesis
    by (rule conjI [OF http conjI [OF nonzero conjI [OF tool conjI [OF cap refused]]]])
qed

theorem falsy_maxResults_defaults_witness:
  "tokens signed_in \<noteq> None
   \<and> calls (snd (post_listEvents (stub_env (Inr None) (Inr None)) (JNum 0) signed_in))
       = [ListCall \<lparr>calendarId = ''primary'', timeMin = ''150'', maxResults = JNum 5,
                    singleEvents = True, orderBy = ''startTime''\<rparr>]
   \<and> calls (snd (post_listEvents (stub_env (Inr None) (Inr None)) JNull signed_in))
       = [ListCall \<lparr>calendarId = ''primary'', timeMin = ''150'', maxResults = JNum 5,
                    singleEvents = True, orderBy = ''startTime''\<rparr>]
   \<and> calls (snd (post_listEvents (stub_env (Inr None) (Inr None)) (JNum 3) signed_in))
       = [ListCall \<lparr>calendarId = ''primary'', timeMin = ''150'', maxResults = JNum 3,
                    singleEvents = True, orderBy = ''startTime''\<rparr>]
   \<and> map_sum id (\<lambda>r. calls (snd r))
         (call_tool mcp_index ''listEvents'' (JNum 0) (stub_env (Inr None) (Inr None)) signed_in)
       = Inr [ListCall \<lparr>calendarId = ''primary'', timeMin = ''150'', maxResults = JNum 5,
                        singleEvents = True, orderBy = ''startTime''\<rparr>]
   \<and> call_tool mcp_index ''listEvents'' (JStr ''0'') (stub_env (Inr None) (Inr None)) signed_in
       = Inl InvalidParams"
proof -
  let ?env = "stub_env (Inr None) (Inr None)"
  have auth: "tokens signed_in \<noteq> None"
    and empty: "calls signed_in = []" and now: "now_iso ?env = ''150''"
    by (simp_all add: signed_in_def stub_env_def)
  note zero = falsy_maxResults_defaults [OF auth, of ?env "JNum 0" "Some 0"]
  note null = falsy_maxResults_defaults [OF auth, of ?env JNull None]
  note three = falsy_maxResults_defaults [OF auth, of ?env "JNum 3" None]
  note string = falsy_maxResults_defaults [OF auth, of ?env "JStr ''0''" None]
  from zero have "calls (snd (post_listEvents ?env (JNum 0) signed_in))
       = [ListCall \<lparr>calendarId = ''primary'', timeMin = ''150'', maxResults = JNum 5,
                    singleEvents = True, orderBy = ''startTime''\<rparr>]"
    by (simp add: empty now)
  moreover from null have "calls (snd (post_listEvents ?env JNull signed_in))
       = [ListCall \<lparr>calendarId = ''primary'', timeMin = ''150'', maxResults = JNum 5,
                    singleEvents = True, orderBy = ''startTime''\<rparr>]"
    by (simp add: empty now)
  moreover from three have "calls (snd (post_listEvents ?env (JNum 3) signed_in))
       = [ListCall \<lparr>calendarId = ''primary'', timeMin = ''150'', maxResults = JNum 3,
                    singleEvents = True, orderBy = ''startTime''\<rparr>]"
    by (simp add: empty now)
  moreover from zero obtain res w'
    where "call_tool mcp_index ''listEvents'' (JNum 0) ?env signed_in = Inr (res, w')"
      and "calls w' = calls signed_in @ [ListCall \<lparr>calendarId = ''primary'',
                timeMin = now_iso ?env, maxResults = JNum 5,
                singleEvents = True, orderBy = ''startTime''\<rparr>]"
    by auto
  then have "map_sum id (\<lambda>r. calls (snd r)) (call_tool mcp_index ''listEvents'' (JNum 0) ?env signed_in)
       = Inr [ListCall \<lparr>calendarId = ''primary'', timeMin = ''150'', maxResults = JNum 5,
                        singleEvents = True, orderBy = ''startTime''\<rparr>]"
    by (simp add: empty now)
  moreover from string
  have "call_tool mcp_index ''listEvents'' (JStr ''0'') ?env signed_in = Inl InvalidParams"
    by simp
  ultimately show ?thesis
    using auth by (intro conjI)
qed

end
